theory Spec2Isabelle
  imports Complex_Main "HOL-Library.Sublist"
begin

section \<open>JavaScript values used by the DVR modules\<close>

text \<open>
  JavaScript numbers are modelled as exact reals: rounding of IEEE doubles is outside the
  model.  A value that may be \<^verbatim>\<open>null\<close>, \<^verbatim>\<open>undefined\<close> or \<^verbatim>\<open>NaN\<close> is an
  option, with \<open>None\<close> for the missing value.  Console output is not modelled.
\<close>

text \<open>Truthiness of a number-or-null: \<^verbatim>\<open>null\<close>, \<^verbatim>\<open>NaN\<close> and \<^verbatim>\<open>0\<close> are falsy.\<close>

definition truthyNum :: "real option \<Rightarrow> bool" where
  "truthyNum v = (case v of None \<Rightarrow> False | Some x \<Rightarrow> x \<noteq> 0)"

text \<open>Truthiness of a string-or-null: \<^verbatim>\<open>null\<close> and the empty string are falsy.\<close>

definition truthyStr :: "string option \<Rightarrow> bool" where
  "truthyStr v = (case v of None \<Rightarrow> False | Some s \<Rightarrow> s \<noteq> [])"

text \<open>Arithmetic coercion of a number-or-null: \<^verbatim>\<open>null\<close> counts as \<^verbatim>\<open>0\<close>.\<close>

definition toNumber :: "real option \<Rightarrow> real" where
  "toNumber v = (case v of None \<Rightarrow> 0 | Some x \<Rightarrow> x)"

text \<open>The operator \<^verbatim>\<open>a || b\<close> on numbers and on strings.\<close>

definition orNum :: "real option \<Rightarrow> real \<Rightarrow> real" where
  "orNum a b = (case a of None \<Rightarrow> b | Some x \<Rightarrow> if x = 0 then b else x)"

definition orNat :: "nat option \<Rightarrow> nat \<Rightarrow> nat" where
  "orNat a b = (case a of None \<Rightarrow> b | Some x \<Rightarrow> if x = 0 then b else x)"

definition orStr :: "string option \<Rightarrow> string \<Rightarrow> string" where
  "orStr a b = (case a of None \<Rightarrow> b | Some s \<Rightarrow> if s = [] then b else s)"


section \<open>The segment tracker (dvr-tracker.js)\<close>

record segment =
  url :: string
  timestamp :: real
  duration :: real
  sequence :: nat
  quality :: string

text \<open>The argument object of \<^verbatim>\<open>addSegment\<close>; an absent property is \<open>None\<close>.\<close>

record segmentInfo =
  info_url :: string
  info_duration :: "real option"
  info_sequence :: "nat option"
  info_quality :: "string option"

text \<open>
  The payload of \<^verbatim>\<open>timelineUpdated\<close>: isLive, streamStartTime, earliestAvailable,
  latestAvailable, bufferDuration, segmentCount, canSeekBack.
\<close>

datatype event =
    StreamStarted string real
  | StreamEnded "string option"
  | SegmentAdded segment
  | TimelineUpdated bool "real option" "real option" "real option" real nat bool

text \<open>
  The fields of \<^verbatim>\<open>DVRTracker\<close>.  The listener table is replaced by \<open>emitted\<close>, the
  log of the events handed to \<^verbatim>\<open>emit\<close>: listeners run inside a try/catch and are not
  part of the tracker.
\<close>

record tracker =
  maxBufferDuration :: real
  segmentDuration :: real
  isLive :: bool
  channelName :: "string option"
  streamStartTime :: "real option"
  segments :: "segment list"
  currentSegmentIndex :: int
  isEnabled :: bool
  earliestAvailableTime :: "real option"
  latestAvailableTime :: "real option"
  emitted :: "event list"

definition DVRTracker :: tracker where
  "DVRTracker =
     \<lparr> maxBufferDuration = 4 * 60 * 60 * 1000,
       segmentDuration = 2000,
       isLive = False,
       channelName = None,
       streamStartTime = None,
       segments = [],
       currentSegmentIndex = - 1,
       isEnabled = True,
       earliestAvailableTime = None,
       latestAvailableTime = None,
       emitted = [] \<rparr>"

definition emit :: "event \<Rightarrow> tracker \<Rightarrow> tracker" where
  "emit ev t = t\<lparr>emitted := emitted t @ [ev]\<rparr>"

definition reset :: "tracker \<Rightarrow> tracker" where
  "reset t =
     t\<lparr> segments := [],
        currentSegmentIndex := - 1,
        streamStartTime := None,
        earliestAvailableTime := None,
        latestAvailableTime := None,
        channelName := None,
        isLive := False \<rparr>"

text \<open>\<open>now\<close> is the reading of \<^verbatim>\<open>Date.now()\<close> taken by the call.\<close>

definition startTracking :: "real \<Rightarrow> string \<Rightarrow> tracker \<Rightarrow> tracker" where
  "startTracking now name t =
     emit (StreamStarted name now)
       ((reset t)\<lparr> isLive := True,
                   channelName := Some name,
                   streamStartTime := Some now,
                   earliestAvailableTime := Some now,
                   latestAvailableTime := Some now \<rparr>)"

definition stopTracking :: "tracker \<Rightarrow> tracker" where
  "stopTracking t =
     (if isLive t then emit (StreamEnded (channelName t)) t else t)\<lparr>isLive := False\<rparr>"

definition getBufferDuration :: "tracker \<Rightarrow> real" where
  "getBufferDuration t =
     (if \<not> truthyNum (earliestAvailableTime t) \<or> \<not> truthyNum (latestAvailableTime t) then 0
      else toNumber (latestAvailableTime t) - toNumber (earliestAvailableTime t))"

definition canSeekBack :: "tracker \<Rightarrow> bool" where
  "canSeekBack t = (length (segments t) > 1 \<and> getBufferDuration t > 5000)"

definition emitTimelineUpdate :: "tracker \<Rightarrow> tracker" where
  "emitTimelineUpdate t =
     emit (TimelineUpdated (isLive t) (streamStartTime t) (earliestAvailableTime t)
             (latestAvailableTime t) (getBufferDuration t) (length (segments t))
             (canSeekBack t)) t"

text \<open>The eviction pass; \<open>now\<close> is its reading of \<^verbatim>\<open>Date.now()\<close>.\<close>

definition cleanupOldSegments :: "real \<Rightarrow> tracker \<Rightarrow> tracker" where
  "cleanupOldSegments now t =
     (let cutoffTime = now - maxBufferDuration t;
          t1 = t\<lparr>segments := filter (\<lambda>seg. timestamp seg > cutoffTime) (segments t)\<rparr>
      in case segments t1 of
           [] \<Rightarrow> t1
         | first # _ \<Rightarrow> t1\<lparr>earliestAvailableTime := Some (timestamp first)\<rparr>)"

text \<open>
  \<^verbatim>\<open>addSegment\<close> reads the clock twice: \<open>now1\<close> stamps the segment, \<open>now2\<close> is the
  reading of the eviction pass that follows.
\<close>

definition addSegment :: "real \<Rightarrow> real \<Rightarrow> segmentInfo \<Rightarrow> tracker \<Rightarrow> tracker" where
  "addSegment now1 now2 info t =
     (if \<not> isLive t \<or> \<not> isEnabled t then t
      else
        let seg = \<lparr> url = info_url info,
                    timestamp = now1,
                    duration = orNum (info_duration info) (segmentDuration t),
                    sequence = orNat (info_sequence info) (length (segments t)),
                    quality = orStr (info_quality info) ''source'' \<rparr>;
            t1 = t\<lparr>segments := segments t @ [seg]\<rparr>;
            t2 = t1\<lparr>latestAvailableTime := Some (timestamp seg + duration seg)\<rparr>;
            t3 = cleanupOldSegments now2 t2;
            t4 = emit (SegmentAdded seg) t3
        in emitTimelineUpdate t4)"

definition getPositionPercentage :: "tracker \<Rightarrow> real \<Rightarrow> real" where
  "getPositionPercentage t currentTimestamp =
     (let d = getBufferDuration t in
      if d = 0 then 100
      else
        let position = currentTimestamp - toNumber (earliestAvailableTime t)
        in min 100 (max 0 ((position / d) * 100)))"

definition getTimestampFromPercentage :: "tracker \<Rightarrow> real \<Rightarrow> real" where
  "getTimestampFromPercentage t percentage =
     (let d = getBufferDuration t in
      toNumber (earliestAvailableTime t) + (d * percentage / 100))"


section \<open>Playlist ingest (processPlaylist in dvr-tracker.js)\<close>

text \<open>
  Strings are lists of bytes.  The string methods the parser calls are written out:
  \<^verbatim>\<open>split('\n')\<close>, \<^verbatim>\<open>trim\<close> (over the ASCII white space), \<^verbatim>\<open>startsWith\<close>,
  \<^verbatim>\<open>endsWith\<close> and \<^verbatim>\<open>includes\<close>.
\<close>

fun splitLines :: "string \<Rightarrow> string list" where
  "splitLines [] = [[]]"
| "splitLines (c # cs) =
     (if c = CHR 0x0A then [] # splitLines cs
      else case splitLines cs of [] \<Rightarrow> [[c]] | l # ls \<Rightarrow> (c # l) # ls)"

definition isSpace :: "char \<Rightarrow> bool" where
  "isSpace c = (c \<in> set [CHR 0x09, CHR 0x0A, CHR 0x0B, CHR 0x0C, CHR 0x0D, CHR 0x20])"

definition trim :: "string \<Rightarrow> string" where
  "trim s = rev (dropWhile isSpace (rev (dropWhile isSpace s)))"

fun startsWith :: "string \<Rightarrow> string \<Rightarrow> bool" where
  "startsWith s [] = True"
| "startsWith [] (p # ps) = False"
| "startsWith (c # cs) (p # ps) = (c = p \<and> startsWith cs ps)"

definition endsWith :: "string \<Rightarrow> string \<Rightarrow> bool" where
  "endsWith s p = startsWith (rev s) (rev p)"

fun includesStr :: "string \<Rightarrow> string \<Rightarrow> bool" where
  "includesStr [] p = startsWith [] p"
| "includesStr (c # cs) p = (startsWith (c # cs) p \<or> includesStr cs p)"

definition isDigit :: "char \<Rightarrow> bool" where
  "isDigit c = (c \<in> set ''0123456789'')"

text \<open>The character class \<^verbatim>\<open>[\d.]\<close>.\<close>

definition isDigitOrDot :: "char \<Rightarrow> bool" where
  "isDigitOrDot c = (isDigit c \<or> c = CHR ''.'')"

definition digitValue :: "char \<Rightarrow> nat" where
  "digitValue c = of_char c - 48"

definition natOfDigits :: "string \<Rightarrow> nat" where
  "natOfDigits ds = foldl (\<lambda>n c. 10 * n + digitValue c) 0 ds"

text \<open>
  \<open>matchAfter lit cls s\<close> is the capture group of the regular expression
  \<^verbatim>\<open>/lit(cls+)/\<close> on \<open>s\<close>: the leftmost place where \<open>lit\<close> is followed by at least
  one character of the class, and the longest run of the class there.  It serves
  \<^verbatim>\<open>/#EXTINF:([\d.]+)/\<close> and \<^verbatim>\<open>/#EXT-X-MEDIA-SEQUENCE:(\d+)/\<close>.
\<close>

fun matchAfter :: "string \<Rightarrow> (char \<Rightarrow> bool) \<Rightarrow> string \<Rightarrow> string option" where
  "matchAfter lit cls [] = None"
| "matchAfter lit cls (c # cs) =
     (let run = takeWhile cls (drop (length lit) (c # cs)) in
      if startsWith (c # cs) lit \<and> run \<noteq> [] then Some run
      else matchAfter lit cls cs)"

text \<open>
  \<^verbatim>\<open>parseFloat\<close> on a string of digits and dots (all the regular expression lets
  through): the longest prefix \<^verbatim>\<open>digits[.digits]\<close> or \<^verbatim>\<open>.digits\<close>, and
  \<^verbatim>\<open>NaN\<close> (\<open>None\<close>) when there is no digit at all in that prefix.
\<close>

definition parseFloat :: "string \<Rightarrow> real option" where
  "parseFloat s =
     (let ip = takeWhile isDigit s;
          rest = dropWhile isDigit s;
          fp = (case rest of [] \<Rightarrow> [] | c # r \<Rightarrow> if c = CHR ''.'' then takeWhile isDigit r else [])
      in if ip = [] \<and> fp = [] then None
         else Some (real (natOfDigits ip) + real (natOfDigits fp) / 10 ^ length fp))"

text \<open>
  A run of \<^verbatim>\<open>processPlaylist\<close> ends normally, or is cut short by the \<^verbatim>\<open>TypeError\<close>
  of \<^verbatim>\<open>new URL(line, baseUrl)\<close>; either way the tracker keeps what was done so far.
\<close>

datatype outcome = Completed tracker | Aborted tracker

fun final :: "outcome \<Rightarrow> tracker" where
  "final (Completed t) = t"
| "final (Aborted t) = t"

text \<open>
  The loop over the lines.  \<open>clk k\<close> is the \<open>k\<close>-th reading of \<^verbatim>\<open>Date.now()\<close> during
  the call and \<open>n\<close> counts the readings taken so far; \<open>resolve line baseUrl\<close> is
  \<^verbatim>\<open>new URL(line, baseUrl).href\<close>, \<open>None\<close> when the constructor throws;
  \<open>currentDuration\<close> is \<open>None\<close> when it is \<^verbatim>\<open>NaN\<close>.
\<close>

fun processLines ::
  "(nat \<Rightarrow> real) \<Rightarrow> (string \<Rightarrow> string \<Rightarrow> string option) \<Rightarrow> string \<Rightarrow>
   string list \<Rightarrow> nat \<Rightarrow> real option \<Rightarrow> nat \<Rightarrow> tracker \<Rightarrow> outcome" where
  "processLines clk resolve baseUrl [] n currentDuration sq t = Completed t"
| "processLines clk resolve baseUrl (l # ls) n currentDuration sq t =
     (let line = trim l in
      if startsWith line ''#EXTINF:'' then
        (case matchAfter ''#EXTINF:'' isDigitOrDot line of
           Some m \<Rightarrow>
             processLines clk resolve baseUrl ls n
               (map_option (\<lambda>x. x * 1000) (parseFloat m)) sq t
         | None \<Rightarrow> processLines clk resolve baseUrl ls n currentDuration sq t)
      else if line \<noteq> [] \<and> \<not> startsWith line ''#'' \<and>
              (endsWith line ''.ts'' \<or> includesStr line ''.ts?'') then
        (case (if startsWith line ''http'' then Some line else resolve line baseUrl) of
           None \<Rightarrow> Aborted t
         | Some segmentUrl \<Rightarrow>
             if find (\<lambda>s. url s = segmentUrl) (segments t) = None then
               processLines clk resolve baseUrl ls
                 (if \<not> isLive t \<or> \<not> isEnabled t then n else n + 2) currentDuration (sq + 1)
                 (addSegment (clk n) (clk (n + 1))
                    \<lparr> info_url = segmentUrl,
                      info_duration = Some (orNum currentDuration (segmentDuration t)),
                      info_sequence = Some sq,
                      info_quality = None \<rparr> t)
             else processLines clk resolve baseUrl ls n currentDuration (sq + 1) t)
      else processLines clk resolve baseUrl ls n currentDuration sq t)"

definition processPlaylist ::
  "(nat \<Rightarrow> real) \<Rightarrow> (string \<Rightarrow> string \<Rightarrow> string option) \<Rightarrow> string \<Rightarrow> string \<Rightarrow>
   tracker \<Rightarrow> outcome" where
  "processPlaylist clk resolve playlistContent baseUrl t =
     (if \<not> isLive t \<or> \<not> isEnabled t then Completed t
      else
        let lines = splitLines playlistContent;
            sq = (case matchAfter ''#EXT-X-MEDIA-SEQUENCE:'' isDigit playlistContent of
                    Some m \<Rightarrow> natOfDigits m
                  | None \<Rightarrow> 0)
        in processLines clk resolve baseUrl lines 0 (Some 0) sq t)"




section \<open>The playback controller (dvr-controller.js)\<close>

text \<open>
  The native \<^verbatim>\<open>video\<close> element as the controller reads and writes it; \<open>buffered\<close>
  lists the buffered ranges as (start, end) pairs, oldest first.
\<close>

record video =
  muted :: bool
  currentTime :: real
  buffered :: "(real \<times> real) list"

datatype cssDisplay = DisplayNone | DisplayBlock

text \<open>What the element \<^verbatim>\<open>#tns-vod-embed\<close> holds: nothing, the embed of a handle, or the
  fallback iframe with its video id and time.\<close>

datatype embedContent = NoEmbed | EmbedPlayer nat | Iframe string string

text \<open>The overlay \<^verbatim>\<open>#tns-vod-overlay\<close>; its embed container exists exactly while it does.\<close>

record overlay =
  display :: cssDisplay
  embed :: embedContent

text \<open>
  The messages of \<^verbatim>\<open>showNotification\<close>: "VOD pas encore disponible ...",
  "Chargement VOD...", "VOD chargee" and "Retour au Live".
\<close>

datatype notice = VodUnavailable | VodLoading | VodLoaded | ReturnToLive

text \<open>
  What the controller does to the secondary player: constructing a \<^verbatim>\<open>Twitch.Embed\<close>
  (handle, video id, time option), building the fallback iframe (video id, time),
  calling \<^verbatim>\<open>seek\<close> on a handle, and a seek attempt that raised and was caught.
\<close>

datatype embedOp =
    NewEmbed nat string string
  | NewIframe string string
  | SeekCall nat real
  | SeekFailed nat

text \<open>
  What the controller probes in the page: whether the player container is found, whether
  \<^verbatim>\<open>window.Twitch.Embed\<close> is loaded, whether its constructor throws, whether a handle
  has \<^verbatim>\<open>seek\<close> and \<^verbatim>\<open>setVideo\<close>, whether \<^verbatim>\<open>seek\<close> throws, and whether the native
  live button is found.
\<close>

record page =
  hasPlayerContainer :: bool
  embedApiLoaded :: bool
  embedThrows :: bool
  playerHasSeek :: bool
  playerHasSetVideo :: bool
  seekThrows :: bool
  hasLiveButton :: bool

text \<open>
  The fields of \<^verbatim>\<open>DVRController\<close> that seeking reads or writes
  (\<open>ctlStreamStartTime\<close> is its \<^verbatim>\<open>streamStartTime\<close>), followed by the controller's
  effects on the page: the notifications shown, the operations on the secondary player,
  the next fresh handle, and the clicks on the native live button.
\<close>

record controller =
  isActive :: bool
  currentChannel :: "string option"
  ctlStreamStartTime :: "real option"
  currentVodId :: "string option"
  vodOverlay :: "overlay option"
  vodPlayer :: "nat option"
  lastVodId :: "string option"
  isWatchingVod :: bool
  vodEmbedLoaded :: bool
  playerElement :: "video option"
  notifications :: "notice list"
  embedLog :: "embedOp list"
  nextHandle :: nat
  liveButtonClicks :: nat

definition DVRController :: controller where
  "DVRController =
     \<lparr> isActive = False,
       currentChannel = None,
       ctlStreamStartTime = None,
       currentVodId = None,
       vodOverlay = None,
       vodPlayer = None,
       lastVodId = None,
       isWatchingVod = False,
       vodEmbedLoaded = False,
       playerElement = None,
       notifications = [],
       embedLog = [],
       nextHandle = 0,
       liveButtonClicks = 0 \<rparr>"

definition showNotification :: "notice \<Rightarrow> controller \<Rightarrow> controller" where
  "showNotification m c = c\<lparr>notifications := notifications c @ [m]\<rparr>"

text \<open>\<open>fetched\<close> is the \<^verbatim>\<open>vodId\<close> of the answer of \<^verbatim>\<open>checkStreamInfo\<close>.\<close>

definition refreshVodInfo :: "string option \<Rightarrow> controller \<Rightarrow> controller" where
  "refreshVodInfo fetched c =
     (if \<not> truthyStr (currentChannel c) then c
      else if truthyStr fetched then c\<lparr>currentVodId := fetched\<rparr>
      else c)"

definition createVodOverlay :: "page \<Rightarrow> controller \<Rightarrow> controller" where
  "createVodOverlay pg c =
     (if vodOverlay c \<noteq> None then c
      else if \<not> hasPlayerContainer pg then c
      else c\<lparr>vodOverlay := Some \<lparr> display = DisplayNone, embed = NoEmbed \<rparr>\<rparr>)"

fun showNat :: "nat \<Rightarrow> string" where
  "showNat n =
     (if n < 10 then [char_of (48 + n)]
      else showNat (n div 10) @ [char_of (48 + n mod 10)])"

declare showNat.simps [simp del]

text \<open>The argument is never negative where the controller calls it.\<close>

definition formatVodTimestamp :: "real \<Rightarrow> string" where
  "formatVodTimestamp s =
     (let seconds = nat \<lfloor>s\<rfloor>;
          hrs = seconds div 3600;
          mins = (seconds mod 3600) div 60;
          secs = seconds mod 60
      in (if hrs > 0 then showNat hrs @ ''h'' else [])
         @ (if mins > 0 \<or> hrs > 0 then showNat mins @ ''m'' else [])
         @ showNat secs @ ''s'')"

definition setEmbed :: "embedContent \<Rightarrow> controller \<Rightarrow> controller" where
  "setEmbed e c = c\<lparr>vodOverlay := map_option (\<lambda>ov. ov\<lparr>embed := e\<rparr>) (vodOverlay c)\<rparr>"

definition createVodIframe :: "string \<Rightarrow> real \<Rightarrow> controller \<Rightarrow> controller" where
  "createVodIframe vodId startTime c =
     (if vodOverlay c = None then c
      else
        let c1 = (setEmbed NoEmbed c)\<lparr>lastVodId := Some vodId\<rparr>;
            c2 = setEmbed (Iframe vodId (formatVodTimestamp startTime)) c1
        in c2\<lparr> vodEmbedLoaded := True,
                embedLog := embedLog c2 @ [NewIframe vodId (formatVodTimestamp startTime)] \<rparr>)"

text \<open>The body of the reuse branch: \<^verbatim>\<open>seek\<close> on the handle the controller holds.\<close>

definition seekVodPlayer :: "page \<Rightarrow> nat \<Rightarrow> real \<Rightarrow> controller \<Rightarrow> controller" where
  "seekVodPlayer pg h startTime c =
     (if playerHasSeek pg then
        (if seekThrows pg
         then c\<lparr>embedLog := embedLog c @ [SeekCall h startTime, SeekFailed h]\<rparr>
         else c\<lparr>embedLog := embedLog c @ [SeekCall h startTime]\<rparr>)
      else if playerHasSetVideo pg then c\<lparr>embedLog := embedLog c @ [SeekFailed h]\<rparr>
      else c)"

text \<open>
  \<^verbatim>\<open>initVodEmbed\<close>.  A fresh embed gets the next handle.  The listeners it registers
  (\<^verbatim>\<open>VIDEO_READY\<close>, \<^verbatim>\<open>VIDEO_PLAY\<close>) run later, outside the call, and are left out;
  \<open>embedThrows\<close> stands for the constructor throwing before \<^verbatim>\<open>vodPlayer\<close> is assigned.
\<close>

definition initVodEmbed :: "page \<Rightarrow> string \<Rightarrow> real \<Rightarrow> controller \<Rightarrow> controller" where
  "initVodEmbed pg vodId startTime c =
     (case (if lastVodId c = Some vodId then vodPlayer c else None) of
        Some h \<Rightarrow> seekVodPlayer pg h startTime c
      | None \<Rightarrow>
          if \<not> embedApiLoaded pg then createVodIframe vodId startTime c
          else if vodOverlay c = None then c
          else
            let c1 = (setEmbed NoEmbed c)\<lparr>lastVodId := Some vodId\<rparr> in
            if embedThrows pg then createVodIframe vodId startTime c1
            else
              let h = nextHandle c1;
                  c2 = (setEmbed (EmbedPlayer h) c1)\<lparr>vodPlayer := Some h, nextHandle := h + 1\<rparr>
              in c2\<lparr>embedLog :=
                      embedLog c2 @ [NewEmbed h vodId (formatVodTimestamp startTime)]\<rparr>)"

definition muteLive :: "controller \<Rightarrow> controller" where
  "muteLive c = c\<lparr>playerElement := map_option (\<lambda>v. v\<lparr>muted := True\<rparr>) (playerElement c)\<rparr>"

text \<open>The closing block of \<^verbatim>\<open>switchToVod\<close>, run when the overlay exists.\<close>

definition showVodOverlay :: "controller \<Rightarrow> controller" where
  "showVodOverlay c =
     (case vodOverlay c of
        None \<Rightarrow> c
      | Some ov \<Rightarrow>
          let c1 = c\<lparr>vodOverlay := Some (ov\<lparr>display := DisplayBlock\<rparr>),
                     isWatchingVod := True\<rparr>;
              c2 = muteLive c1
          in if \<not> isWatchingVod c2 then showNotification VodLoaded c2 else c2)"

definition switchToVod :: "page \<Rightarrow> string option \<Rightarrow> real \<Rightarrow> controller \<Rightarrow> controller" where
  "switchToVod pg fetched vodPositionSeconds c =
     (let c1 = (if \<not> truthyStr (currentVodId c) then refreshVodInfo fetched c else c) in
      case (if truthyStr (currentVodId c1) then currentVodId c1 else None) of
        None \<Rightarrow> showNotification VodUnavailable c1
      | Some vodId \<Rightarrow>
          let adjustedPosition = max 0 (vodPositionSeconds - 5);
              c2 = (if \<not> isWatchingVod c1 then showNotification VodLoading c1 else c1);
              c3 = (if vodOverlay c2 = None then createVodOverlay pg c2 else c2);
              c4 = initVodEmbed pg vodId adjustedPosition c3
          in showVodOverlay c4)"

definition seekToLiveEdge :: "video \<Rightarrow> video" where
  "seekToLiveEdge v =
     (case buffered v of [] \<Rightarrow> v | r # rs \<Rightarrow> v\<lparr>currentTime := snd (last (r # rs))\<rparr>)"

definition switchToLive :: "controller \<Rightarrow> controller" where
  "switchToLive c =
     (let c1 = c\<lparr>vodOverlay := map_option (\<lambda>ov. ov\<lparr>display := DisplayNone\<rparr>) (vodOverlay c)\<rparr>;
          c2 = c1\<lparr>isWatchingVod := False\<rparr>;
          c3 = c2\<lparr>playerElement :=
                    map_option (\<lambda>v. seekToLiveEdge (v\<lparr>muted := False\<rparr>)) (playerElement c2)\<rparr>
      in showNotification ReturnToLive c3)"

definition getElapsedTime :: "real \<Rightarrow> controller \<Rightarrow> real" where
  "getElapsedTime now c =
     (if \<not> truthyNum (ctlStreamStartTime c) then 0
      else of_int \<lfloor>(now - toNumber (ctlStreamStartTime c)) / 1000\<rfloor>)"

record bufferInfo =
  bi_start :: real
  bi_end :: real
  bi_duration :: real
  bi_currentTime :: real
  bi_behindLive :: real
  bi_positionPercent :: real

definition getBufferInfo :: "controller \<Rightarrow> bufferInfo" where
  "getBufferInfo c =
     (case playerElement c of
        None \<Rightarrow>
          \<lparr> bi_start = 0, bi_end = 0, bi_duration = 0, bi_currentTime = 0,
            bi_behindLive = 0, bi_positionPercent = 100 \<rparr>
      | Some v \<Rightarrow>
          let bufferStart = (case buffered v of [] \<Rightarrow> 0 | r # rs \<Rightarrow> fst r);
              bufferEnd = (case buffered v of [] \<Rightarrow> 0 | r # rs \<Rightarrow> snd (last (r # rs)));
              bufferDuration = bufferEnd - bufferStart
          in \<lparr> bi_start = bufferStart, bi_end = bufferEnd, bi_duration = bufferDuration,
               bi_currentTime = currentTime v,
               bi_behindLive = max 0 (bufferEnd - currentTime v),
               bi_positionPercent =
                 (if bufferDuration > 0
                  then ((currentTime v - bufferStart) / bufferDuration) * 100 else 100) \<rparr>)"

definition handleGoLive :: "page \<Rightarrow> controller \<Rightarrow> controller" where
  "handleGoLive pg c =
     (if isWatchingVod c then switchToLive c
      else
        let c1 = c\<lparr>playerElement := map_option seekToLiveEdge (playerElement c)\<rparr>
        in if hasLiveButton pg then c1\<lparr>liveButtonClicks := liveButtonClicks c1 + 1\<rparr> else c1)"

text \<open>
  \<open>now\<close> is the reading of \<^verbatim>\<open>Date.now()\<close> in \<^verbatim>\<open>getElapsedTime\<close>.  The asynchronous
  \<^verbatim>\<open>switchToVod\<close> is run to its end within the call.
\<close>

definition handleSeek ::
  "page \<Rightarrow> string option \<Rightarrow> real \<Rightarrow> real \<Rightarrow> controller \<Rightarrow> controller" where
  "handleSeek pg fetched now positionPercent c =
     (let elapsed = getElapsedTime now c;
          bufferInfo = getBufferInfo c;
          targetSecondsFromStart = elapsed * positionPercent / 100;
          secondsBehindLive = elapsed - targetSecondsFromStart
      in if positionPercent \<ge> 98 \<or> secondsBehindLive < 5 then handleGoLive pg c
         else if secondsBehindLive \<le> bi_duration bufferInfo then
           let targetTime = bi_end bufferInfo - secondsBehindLive;
               c1 = (if isWatchingVod c then switchToLive c else c)
           in c1\<lparr>playerElement :=
                   map_option (\<lambda>v. v\<lparr>currentTime := targetTime\<rparr>) (playerElement c1)\<rparr>
         else switchToVod pg fetched targetSecondsFromStart c)"


section \<open>Example states\<close>

text \<open>An argument of \<^verbatim>\<open>addSegment\<close> that gives the locator only.\<close>

definition exInfo :: "string \<Rightarrow> segmentInfo" where
  "exInfo u = \<lparr> info_url = u, info_duration = None, info_sequence = None, info_quality = None \<rparr>"

text \<open>A tracker started at time 1000 for channel \<open>ch\<close>.\<close>

definition exStarted :: tracker where
  "exStarted = startTracking 1000 ''ch'' DVRTracker"

text \<open>The same tracker after two segments were added, at 2000 and at 4000.\<close>

definition exTwoSegments :: tracker where
  "exTwoSegments =
     addSegment 4000 4001 (exInfo ''b.ts'') (addSegment 2000 2001 (exInfo ''a.ts'') exStarted)"



definition exMalformedPlaylist :: string where
  "exMalformedPlaylist =
     ''#EXTM3U'' @ [CHR 0x0A] @ ''#EXT-X-MEDIA-SEQUENCE:17'' @ [CHR 0x0A] @
     ''#EXTINF:4.000,live'' @ [CHR 0x0A] @ ''http://h/a.ts'' @ [CHR 0x0A] @
     ''#EXTINF:abc,live'' @ [CHR 0x0A] @ ''http://h/b.ts''"

text \<open>A clock that advances by one millisecond from 2000 at every reading.\<close>

definition exClock :: "nat \<Rightarrow> real" where
  "exClock k = 2000 + real k"

text \<open>No relative locator resolves: every locator of the examples is absolute.\<close>

definition exResolve :: "string \<Rightarrow> string \<Rightarrow> string option" where
  "exResolve line baseUrl = None"





text \<open>
  A page on which everything the controller probes is there, and the same page before the
  embed script has loaded.
\<close>

definition exPage :: page where
  "exPage = \<lparr> hasPlayerContainer = True, embedApiLoaded = True, embedThrows = False,
              playerHasSeek = True, playerHasSetVideo = True, seekThrows = False,
              hasLiveButton = True \<rparr>"

definition exPageNoEmbedApi :: page where
  "exPageNoEmbedApi = exPage\<lparr>embedApiLoaded := False\<rparr>"

text \<open>
  A controller one hour (3600 s) into the stream at clock reading 4600000, with a native
  buffer of 80 s and a resolved recording id; and the same controller with no recording id.
\<close>

definition exController :: controller where
  "exController =
     DVRController\<lparr> isActive := True,
                    currentChannel := Some ''ch'',
                    ctlStreamStartTime := Some 1000000,
                    currentVodId := Some ''v1'',
                    playerElement :=
                      Some \<lparr> muted = False, currentTime = 180, buffered = [(100, 180)] \<rparr> \<rparr>"

definition exControllerNoVod :: controller where
  "exControllerNoVod = exController\<lparr>currentVodId := None\<rparr>"


section \<open>The eviction pass\<close>

lemma cleanupOldSegments_segments:
  "segments (cleanupOldSegments now t) =
     filter (\<lambda>seg. timestamp seg > now - maxBufferDuration t) (segments t)"
  by (simp add: cleanupOldSegments_def Let_def split: list.split)

lemma cleanupOldSegments_latest:
  "latestAvailableTime (cleanupOldSegments now t) = latestAvailableTime t"
  by (simp add: cleanupOldSegments_def Let_def split: list.split)

lemma cleanupOldSegments_earliest:
  "earliestAvailableTime (cleanupOldSegments now t) =
     (case segments (cleanupOldSegments now t) of
        [] \<Rightarrow> earliestAvailableTime t
      | first # _ \<Rightarrow> Some (timestamp first))"
  by (simp add: cleanupOldSegments_def Let_def split: list.split)

lemma cleanupOldSegments_changes:
  "cleanupOldSegments now t =
     t\<lparr> segments := segments (cleanupOldSegments now t),
        earliestAvailableTime := earliestAvailableTime (cleanupOldSegments now t) \<rparr>"
  by (simp add: cleanupOldSegments_def Let_def split: list.split)

text \<open>
  C10.  The eviction pass never changes \<open>latestAvailableTime\<close>, whatever the state and
  whatever it evicts: the segment list and \<open>earliestAvailableTime\<close> are the only fields
  that can differ afterwards.  When every segment is evicted both bounds keep their
  values; when a segment survives \<open>earliestAvailableTime\<close> is the stamp of the oldest
  survivor.
\<close>

theorem cleanupOldSegments_frame:
  "latestAvailableTime (cleanupOldSegments now t) = latestAvailableTime t \<and>
   cleanupOldSegments now t =
     t\<lparr> segments := segments (cleanupOldSegments now t),
        earliestAvailableTime := earliestAvailableTime (cleanupOldSegments now t) \<rparr> \<and>
   (if segments (cleanupOldSegments now t) = []
    then earliestAvailableTime (cleanupOldSegments now t) = earliestAvailableTime t
    else earliestAvailableTime (cleanupOldSegments now t) =
           Some (timestamp (hd (segments (cleanupOldSegments now t)))))"
proof (intro conjI)
  show "latestAvailableTime (cleanupOldSegments now t) = latestAvailableTime t"
    by (rule cleanupOldSegments_latest)
  show "cleanupOldSegments now t =
     t\<lparr> segments := segments (cleanupOldSegments now t),
        earliestAvailableTime := earliestAvailableTime (cleanupOldSegments now t) \<rparr>"
    by (rule cleanupOldSegments_changes)
  show "if segments (cleanupOldSegments now t) = []
    then earliestAvailableTime (cleanupOldSegments now t) = earliestAvailableTime t
    else earliestAvailableTime (cleanupOldSegments now t) =
           Some (timestamp (hd (segments (cleanupOldSegments now t))))"
    by (simp add: cleanupOldSegments_earliest split: list.split)
qed

theorem cleanupOldSegments_frame_witness:
  "segments (cleanupOldSegments 14404000 exTwoSegments) = [] \<and>
   latestAvailableTime (cleanupOldSegments 14404000 exTwoSegments) = Some 6000 \<and>
   earliestAvailableTime (cleanupOldSegments 14404000 exTwoSegments) = Some 2000 \<and>
   latestAvailableTime (cleanupOldSegments 14403000 exTwoSegments) = Some 6000 \<and>
   earliestAvailableTime (cleanupOldSegments 14403000 exTwoSegments) = Some 4000"
proof -
  have bounds: "latestAvailableTime exTwoSegments = Some 6000"
    "earliestAvailableTime exTwoSegments = Some 2000"
    by code_simp+
  have gone: "segments (cleanupOldSegments 14404000 exTwoSegments) = []"
    by code_simp
  have kept: "segments (cleanupOldSegments 14403000 exTwoSegments) \<noteq> []"
    "timestamp (hd (segments (cleanupOldSegments 14403000 exTwoSegments))) = 4000"
    by code_simp+
  show ?thesis
    using cleanupOldSegments_frame [of 14404000 exTwoSegments]
      cleanupOldSegments_frame [of 14403000 exTwoSegments]
    by (simp add: gone kept bounds)
qed


section \<open>Stopping and resetting\<close>

text \<open>
  C7 as stated fails: \<open>stopTracking\<close> on a tracker holding two segments leaves both
  segments, both bounds and the stream start in place.
\<close>

theorem stopTracking_keeps_timeline_example:
  "map url (segments (stopTracking exTwoSegments)) = [''a.ts'', ''b.ts''] \<and>
   earliestAvailableTime (stopTracking exTwoSegments) = Some 2000 \<and>
   latestAvailableTime (stopTracking exTwoSegments) = Some 6000 \<and>
   streamStartTime (stopTracking exTwoSegments) = Some 1000"
  by code_simp

text \<open>
  C7, amended.  In every state \<open>stopTracking\<close> only marks the tracker as not live and,
  when it was live, emits \<open>streamEnded\<close> with the channel name (nothing is emitted
  otherwise); no other field changes: the segment list, both bounds and the stream start
  keep their values.  They are cleared by \<open>reset\<close>, and after \<open>startTracking\<close> the
  segment list is empty and both bounds are the new start time.
\<close>

theorem stopTracking_frame:
  "stopTracking t = t\<lparr>isLive := False, emitted := emitted (stopTracking t)\<rparr> \<and>
   emitted (stopTracking t) =
     (if isLive t then emitted t @ [StreamEnded (channelName t)] else emitted t) \<and>
   \<not> isLive (stopTracking t) \<and>
   segments (stopTracking t) = segments t \<and>
   earliestAvailableTime (stopTracking t) = earliestAvailableTime t \<and>
   latestAvailableTime (stopTracking t) = latestAvailableTime t \<and>
   streamStartTime (stopTracking t) = streamStartTime t \<and>
   segments (reset t) = [] \<and>
   earliestAvailableTime (reset t) = None \<and>
   latestAvailableTime (reset t) = None \<and>
   streamStartTime (reset t) = None \<and>
   segments (startTracking now name t) = [] \<and>
   earliestAvailableTime (startTracking now name t) = Some now \<and>
   latestAvailableTime (startTracking now name t) = Some now"
  by (simp add: stopTracking_def reset_def startTracking_def emit_def)

theorem stopTracking_frame_witness:
  "length (segments (stopTracking exTwoSegments)) = 2 \<and>
   \<not> isLive (stopTracking exTwoSegments) \<and>
   segments (startTracking 9000 ''ch'' (stopTracking exTwoSegments)) = [] \<and>
   emitted (stopTracking exTwoSegments) = emitted exTwoSegments @ [StreamEnded (Some ''ch'')] \<and>
   emitted (stopTracking (stopTracking exTwoSegments)) = emitted (stopTracking exTwoSegments)"
proof -
  have two: "length (segments exTwoSegments) = 2"
    by code_simp
  have live: "isLive exTwoSegments" "channelName exTwoSegments = Some ''ch''"
    by code_simp+
  show ?thesis
    using stopTracking_frame [of exTwoSegments 9000 "''ch''"]
      stopTracking_frame [of "stopTracking exTwoSegments" 9000 "''ch''"]
    by (simp add: two live)
qed


section \<open>Inserting a segment\<close>

lemma emit_segments: "segments (emit ev t) = segments t"
  by (simp add: emit_def)

lemma emitTimelineUpdate_segments: "segments (emitTimelineUpdate t) = segments t"
  by (simp add: emitTimelineUpdate_def emit_def)

lemma addSegment_segments:
  "isLive t \<Longrightarrow> isEnabled t \<Longrightarrow>
   segments (addSegment now1 now2 info t) =
     filter (\<lambda>seg. timestamp seg > now2 - maxBufferDuration t)
       (segments t @
        [\<lparr> url = info_url info, timestamp = now1,
           duration = orNum (info_duration info) (segmentDuration t),
           sequence = orNat (info_sequence info) (length (segments t)),
           quality = orStr (info_quality info) ''source'' \<rparr>])"
  by (simp add: addSegment_def Let_def emitTimelineUpdate_def emit_def
      cleanupOldSegments_segments)


lemma addSegment_latest:
  "isLive t \<Longrightarrow> isEnabled t \<Longrightarrow>
   latestAvailableTime (addSegment now1 now2 info t) =
     Some (now1 + orNum (info_duration info) (segmentDuration t))"
  by (simp add: addSegment_def Let_def emitTimelineUpdate_def emit_def
      cleanupOldSegments_latest)

lemma addSegment_earliest:
  "isLive t \<Longrightarrow> isEnabled t \<Longrightarrow>
   earliestAvailableTime (addSegment now1 now2 info t) =
     (case segments (addSegment now1 now2 info t) of
        [] \<Rightarrow> earliestAvailableTime t
      | first # _ \<Rightarrow> Some (timestamp first))"
  by (simp add: addSegment_def Let_def emitTimelineUpdate_def emit_def
      cleanupOldSegments_def split: list.split)

text \<open>
  C6 as stated fails.  A tracker started at 1000 receives a segment stamped 2000 while
  the eviction pass reads the clock four hours later: the segment is evicted at once, the
  list is empty, and both bounds hold a value (the old lower bound, the new upper bound).
\<close>

theorem addSegment_all_evicted_example:
  "segments (addSegment 2000 14402000 (exInfo ''a.ts'') exStarted) = [] \<and>
   earliestAvailableTime (addSegment 2000 14402000 (exInfo ''a.ts'') exStarted) = Some 1000 \<and>
   latestAvailableTime (addSegment 2000 14402000 (exInfo ''a.ts'') exStarted) = Some 4000"
  by (simp add: addSegment_def Let_def emitTimelineUpdate_def emit_def cleanupOldSegments_def
      exStarted_def startTracking_def reset_def DVRTracker_def exInfo_def orNum_def orNat_def
      orStr_def)

text \<open>
  C6, amended.  After an insert into a live, enabled tracker \<open>latestAvailableTime\<close> is
  the stamp of the inserted segment plus its duration.  When the eviction pass removes
  every segment \<open>earliestAvailableTime\<close> keeps the value it had before the insert (no
  bound is cleared); when segments survive it is the stamp of the oldest survivor.
\<close>

theorem addSegment_bounds:
  assumes "isLive t" and "isEnabled t"
  shows "latestAvailableTime (addSegment now1 now2 info t) =
           Some (now1 + orNum (info_duration info) (segmentDuration t)) \<and>
         (if segments (addSegment now1 now2 info t) = []
          then earliestAvailableTime (addSegment now1 now2 info t) = earliestAvailableTime t
          else earliestAvailableTime (addSegment now1 now2 info t) =
                 Some (timestamp (hd (segments (addSegment now1 now2 info t)))))"
  using assms
  by (simp add: addSegment_latest addSegment_earliest split: list.split)

theorem addSegment_bounds_witness:
  "isLive exStarted \<and> isEnabled exStarted \<and>
   segments (addSegment 2000 14402000 (exInfo ''a.ts'') exStarted) = [] \<and>
   earliestAvailableTime (addSegment 2000 14402000 (exInfo ''a.ts'') exStarted) = Some 1000 \<and>
   latestAvailableTime (addSegment 2000 14402000 (exInfo ''a.ts'') exStarted) = Some 4000 \<and>
   segments (addSegment 2000 2001 (exInfo ''a.ts'') exStarted) \<noteq> [] \<and>
   earliestAvailableTime (addSegment 2000 2001 (exInfo ''a.ts'') exStarted) = Some 2000"
proof -
  have live: "isLive exStarted" "isEnabled exStarted"
    by (simp_all add: exStarted_def startTracking_def reset_def emit_def DVRTracker_def)
  have before: "earliestAvailableTime exStarted = Some 1000" "segmentDuration exStarted = 2000"
    "maxBufferDuration exStarted = 14400000" "segments exStarted = []"
    by (simp_all add: exStarted_def startTracking_def reset_def emit_def DVRTracker_def)
  have dur: "orNum (info_duration (exInfo ''a.ts'')) 2000 = 2000"
    by (simp add: exInfo_def orNum_def)
  have gone: "segments (addSegment 2000 14402000 (exInfo ''a.ts'') exStarted) = []"
    by (simp add: addSegment_segments live before)
  have kept: "segments (addSegment 2000 2001 (exInfo ''a.ts'') exStarted) =
      [\<lparr> url = ''a.ts'', timestamp = 2000, duration = 2000, sequence = 0,
         quality = ''source'' \<rparr>]"
    by (simp add: addSegment_segments live before exInfo_def orNum_def orNat_def orStr_def)
  have a: "latestAvailableTime (addSegment 2000 14402000 (exInfo ''a.ts'') exStarted) = Some 4000"
    "earliestAvailableTime (addSegment 2000 14402000 (exInfo ''a.ts'') exStarted) = Some 1000"
    using addSegment_bounds [OF live, of 2000 14402000 "exInfo ''a.ts''"]
    by (simp_all add: gone before dur)
  have b: "earliestAvailableTime (addSegment 2000 2001 (exInfo ''a.ts'') exStarted) = Some 2000"
    using addSegment_bounds [OF live, of 2000 2001 "exInfo ''a.ts''"]
    by (simp add: kept)
  show ?thesis
    by (simp add: live gone a b kept)
qed


section \<open>Position and percentage\<close>

text \<open>
  C5.  When the buffer duration is positive, a timestamp between the two bounds is mapped
  to a percentage and back to itself.  Numbers are exact here, so the round trip is an
  identity; in the program the two results differ by the rounding of doubles only.
\<close>

theorem percentage_roundtrip:
  assumes "0 < getBufferDuration t"
    and "toNumber (earliestAvailableTime t) \<le> ts"
    and "ts \<le> toNumber (latestAvailableTime t)"
  shows "getTimestampFromPercentage t (getPositionPercentage t ts) = ts"
proof -
  let ?e = "toNumber (earliestAvailableTime t)"
  let ?l = "toNumber (latestAvailableTime t)"
  have d: "getBufferDuration t = ?l - ?e"
    using assms(1) by (auto simp add: getBufferDuration_def split: if_splits)
  have pos: "0 < ?l - ?e" using assms(1) d by simp
  have lo: "0 \<le> (ts - ?e) / (?l - ?e) * 100"
    using assms(2) pos by simp
  have "(ts - ?e) / (?l - ?e) \<le> 1"
    using assms(3) pos by simp
  then have "(ts - ?e) / (?l - ?e) * 100 \<le> 1 * 100"
    by (rule mult_right_mono) simp
  then have hi: "(ts - ?e) / (?l - ?e) * 100 \<le> 100" by (simp only: mult_1)
  have pct: "getPositionPercentage t ts = (ts - ?e) / (?l - ?e) * 100"
    using lo hi pos by (simp add: getPositionPercentage_def d Let_def min_def max_def)
  have undo: "(?l - ?e) * ((ts - ?e) / (?l - ?e) * 100) / 100 = ts - ?e"
    using pos by simp
  have "getTimestampFromPercentage t (getPositionPercentage t ts) =
          ?e + (?l - ?e) * ((ts - ?e) / (?l - ?e) * 100) / 100"
    by (simp only: getTimestampFromPercentage_def pct d Let_def)
  also have "\<dots> = ts" by (simp only: undo)
  finally show ?thesis .
qed

theorem percentage_roundtrip_witness:
  "getBufferDuration exTwoSegments = 4000 \<and>
   getPositionPercentage exTwoSegments 3000 = 25 \<and>
   getTimestampFromPercentage exTwoSegments (getPositionPercentage exTwoSegments 3000) = 3000"
proof -
  have b: "earliestAvailableTime exTwoSegments = Some 2000"
    "latestAvailableTime exTwoSegments = Some 6000"
    by code_simp+
  have d: "getBufferDuration exTwoSegments = 4000"
    by (simp add: getBufferDuration_def b truthyNum_def toNumber_def)
  have p: "getPositionPercentage exTwoSegments 3000 = 25"
    by (simp add: getPositionPercentage_def d b toNumber_def)
  have "getTimestampFromPercentage exTwoSegments (getPositionPercentage exTwoSegments 3000) = 3000"
    by (rule percentage_roundtrip) (simp_all add: d b toNumber_def)
  then show ?thesis using d p by simp
qed


section \<open>Duplicate locators\<close>










section \<open>Unreadable durations\<close>

text \<open>
  A line that starts with \<^verbatim>\<open>#EXTINF:\<close> and has no readable duration is passed over:
  the parse goes on, and \<open>currentDuration\<close> keeps the value an earlier line gave it.
\<close>

lemma processLines_unreadable_duration:
  assumes "startsWith (trim l) ''#EXTINF:''"
    and "matchAfter ''#EXTINF:'' isDigitOrDot (trim l) = None"
  shows "processLines clk resolve baseUrl (l # ls) n cur sq t =
         processLines clk resolve baseUrl ls n cur sq t"
  using assms by (simp add: Let_def)

text \<open>
  C9.  On a playlist whose second duration line reads \<^verbatim>\<open>#EXTINF:abc\<close> both segments
  are inserted, and the second one carries the 4000 ms of the first segment, not the
  nominal 2000 ms of \<open>segmentDuration\<close>.
\<close>

theorem processPlaylist_unreadable_duration_example:
  "map (\<lambda>s. (url s, duration s))
     (segments (final (processPlaylist exClock exResolve exMalformedPlaylist
                         ''http://h/live.m3u8'' exStarted))) =
     [(''http://h/a.ts'', 4000), (''http://h/b.ts'', 4000)] \<and>
   segmentDuration exStarted = 2000"
  by code_simp

theorem processPlaylist_unreadable_duration_example_witness:
  "map duration
     (segments (final (processPlaylist exClock exResolve exMalformedPlaylist
                         ''http://h/live.m3u8'' exStarted))) \<noteq>
     [4000, segmentDuration exStarted]"
proof -
  have "map duration
     (segments (final (processPlaylist exClock exResolve exMalformedPlaylist
                         ''http://h/live.m3u8'' exStarted))) =
     map snd [(''http://h/a.ts'', 4000), (''http://h/b.ts'', 4000 :: real)]"
    by (simp only: processPlaylist_unreadable_duration_example [THEN conjunct1, symmetric]
        map_map comp_def snd_conv)
  then show ?thesis
    using processPlaylist_unreadable_duration_example [THEN conjunct2] by simp
qed


section \<open>Branches of a seek\<close>

lemma handleSeek_vod_branch:
  assumes "pct < 98"
    and "5 \<le> getElapsedTime now c - getElapsedTime now c * pct / 100"
    and "bi_duration (getBufferInfo c) < getElapsedTime now c - getElapsedTime now c * pct / 100"
  shows "handleSeek pg fetched now pct c =
         switchToVod pg fetched (getElapsedTime now c * pct / 100) c"
  using assms by (simp add: handleSeek_def Let_def)

lemma handleSeek_live_branch:
  assumes "98 \<le> pct \<or> getElapsedTime now c - getElapsedTime now c * pct / 100 < 5"
  shows "handleSeek pg fetched now pct c = handleGoLive pg c"
  using assms by (auto simp add: handleSeek_def Let_def)

lemma playerElement_createVodIframe: "playerElement (createVodIframe v s c) = playerElement c"
  by (simp add: createVodIframe_def Let_def setEmbed_def)

lemma playerElement_seekVodPlayer: "playerElement (seekVodPlayer pg h s c) = playerElement c"
  by (simp add: seekVodPlayer_def)

lemma playerElement_initVodEmbed: "playerElement (initVodEmbed pg v s c) = playerElement c"
  by (simp add: initVodEmbed_def Let_def playerElement_createVodIframe
      playerElement_seekVodPlayer setEmbed_def split: option.split)

lemma playerElement_refreshVodInfo: "playerElement (refreshVodInfo f c) = playerElement c"
  by (simp add: refreshVodInfo_def)

lemma playerElement_createVodOverlay: "playerElement (createVodOverlay pg c) = playerElement c"
  by (simp add: createVodOverlay_def)

lemma playerElement_showNotification: "playerElement (showNotification m c) = playerElement c"
  by (simp add: showNotification_def)

lemma currentTime_showVodOverlay:
  "map_option currentTime (playerElement (showVodOverlay c)) =
   map_option currentTime (playerElement c)"
  by (cases "vodOverlay c")
    (simp_all add: showVodOverlay_def Let_def muteLive_def showNotification_def
      option.map_comp comp_def)

lemma switchToVod_unavailable:
  assumes "\<not> truthyStr (currentVodId c)"
    and "\<not> truthyStr (currentChannel c) \<or> \<not> truthyStr fetched"
  shows "switchToVod pg fetched p c = showNotification VodUnavailable c"
proof -
  have "refreshVodInfo fetched c = c"
    using assms(2) by (auto simp add: refreshVodInfo_def)
  then show ?thesis
    using assms(1) by (simp add: switchToVod_def)
qed

lemma switchToVod_available:
  assumes "currentVodId c = Some v" and "v \<noteq> []"
  shows "switchToVod pg fetched p c =
         showVodOverlay
           (initVodEmbed pg v (max 0 (p - 5))
              (if vodOverlay (if \<not> isWatchingVod c then showNotification VodLoading c else c) = None
               then createVodOverlay pg (if \<not> isWatchingVod c then showNotification VodLoading c else c)
               else (if \<not> isWatchingVod c then showNotification VodLoading c else c)))"
proof -
  have t: "truthyStr (Some v)"
    using assms(2) by (simp add: truthyStr_def)
  show ?thesis
    by (simp only: switchToVod_def t assms(1) Let_def not_True_eq_False if_False if_True
        option.case)
qed

lemma currentTime_switchToVod:
  "map_option currentTime (playerElement (switchToVod pg fetched p c)) =
   map_option currentTime (playerElement c)"
proof -
  define c1 where "c1 = (if \<not> truthyStr (currentVodId c) then refreshVodInfo fetched c else c)"
  have p1: "playerElement c1 = playerElement c"
    by (simp add: c1_def playerElement_refreshVodInfo)
  show ?thesis
  proof (cases "truthyStr (currentVodId c1)")
    case False
    then have "switchToVod pg fetched p c = showNotification VodUnavailable c1"
      by (simp add: switchToVod_def c1_def)
    then show ?thesis by (simp add: playerElement_showNotification p1)
  next
    case True
    then obtain v where v: "currentVodId c1 = Some v"
      by (auto simp add: truthyStr_def split: option.splits)
    define c2 where "c2 = (if \<not> isWatchingVod c1 then showNotification VodLoading c1 else c1)"
    define c3 where "c3 = (if vodOverlay c2 = None then createVodOverlay pg c2 else c2)"
    have "switchToVod pg fetched p c = showVodOverlay (initVodEmbed pg v (max 0 (p - 5)) c3)"
      using True v by (simp add: switchToVod_def c1_def [symmetric] c2_def c3_def Let_def)
    moreover have "playerElement c3 = playerElement c"
      by (simp add: c3_def c2_def playerElement_createVodOverlay playerElement_showNotification p1)
    ultimately show ?thesis
      by (simp add: currentTime_showVodOverlay playerElement_initVodEmbed)
  qed
qed

text \<open>
  C2.  A seek below 98 percent whose distance behind live is at least five seconds and
  exceeds the native buffer span is handed to \<open>switchToVod\<close> with the target offset from
  the stream start; the position of the native player is not touched.
\<close>

theorem handleSeek_selects_vod:
  assumes "pct < 98"
    and "5 \<le> getElapsedTime now c - getElapsedTime now c * pct / 100"
    and "bi_duration (getBufferInfo c) < getElapsedTime now c - getElapsedTime now c * pct / 100"
  shows "handleSeek pg fetched now pct c =
           switchToVod pg fetched (getElapsedTime now c * pct / 100) c \<and>
         map_option currentTime (playerElement (handleSeek pg fetched now pct c)) =
           map_option currentTime (playerElement c)"
  using handleSeek_vod_branch [OF assms] by (simp add: currentTime_switchToVod)

theorem handleSeek_selects_vod_witness:
  "getElapsedTime 4600000 exController = 3600 \<and>
   bi_duration (getBufferInfo exController) = 80 \<and>
   handleSeek exPage None 4600000 50 exController = switchToVod exPage None 1800 exController \<and>
   isWatchingVod (handleSeek exPage None 4600000 50 exController) \<and>
   embedLog (handleSeek exPage None 4600000 50 exController) = [NewEmbed 0 ''v1'' ''29m55s''] \<and>
   map_option currentTime (playerElement (handleSeek exPage None 4600000 50 exController)) =
     Some 180"
proof -
  have e: "getElapsedTime 4600000 exController = 3600"
    by code_simp
  have b: "bi_duration (getBufferInfo exController) = 80"
    by code_simp
  have t: "map_option currentTime (playerElement exController) = Some 180"
    by code_simp
  have sel: "handleSeek exPage None 4600000 50 exController =
               switchToVod exPage None (getElapsedTime 4600000 exController * 50 / 100) exController \<and>
             map_option currentTime (playerElement (handleSeek exPage None 4600000 50 exController)) =
               map_option currentTime (playerElement exController)"
    by (rule handleSeek_selects_vod) (simp_all add: e b)
  have eq: "handleSeek exPage None 4600000 50 exController =
      switchToVod exPage None 1800 exController"
    using sel by (simp add: e)
  have ct: "map_option currentTime (playerElement (handleSeek exPage None 4600000 50 exController)) =
      Some 180"
    by (rule trans [OF sel [THEN conjunct2] t])
  have w: "isWatchingVod (switchToVod exPage None 1800 exController)"
    by code_simp
  have l: "embedLog (switchToVod exPage None 1800 exController) = [NewEmbed 0 ''v1'' ''29m55s'']"
    by code_simp
  show ?thesis
    by (intro conjI e b eq ct) (simp_all only: eq w l)
qed


section \<open>Going live\<close>

lemma switchToLive_fields:
  "\<not> isWatchingVod (switchToLive c)"
  "embedLog (switchToLive c) = embedLog c"
  "vodPlayer (switchToLive c) = vodPlayer c"
  by (simp_all add: switchToLive_def Let_def showNotification_def)

lemma handleGoLive_fields:
  "\<not> isWatchingVod (handleGoLive pg c)"
  "embedLog (handleGoLive pg c) = embedLog c"
  "vodPlayer (handleGoLive pg c) = vodPlayer c"
  by (simp_all add: handleGoLive_def Let_def switchToLive_fields)

text \<open>
  C3.  A seek to 98 percent or more, or to less than five seconds behind live, is
  \<open>handleGoLive\<close> and nothing else: the controller is not watching the recording
  afterwards, and no operation on the secondary player is made.  Seeks to 99 and to 100
  percent are of this kind whatever the elapsed time and the buffer are.
\<close>

theorem handleSeek_goes_live:
  assumes "98 \<le> pct \<or> getElapsedTime now c - getElapsedTime now c * pct / 100 < 5"
  shows "handleSeek pg fetched now pct c = handleGoLive pg c \<and>
         \<not> isWatchingVod (handleSeek pg fetched now pct c) \<and>
         embedLog (handleSeek pg fetched now pct c) = embedLog c \<and>
         vodPlayer (handleSeek pg fetched now pct c) = vodPlayer c \<and>
         handleSeek pg fetched now 99 c = handleGoLive pg c \<and>
         handleSeek pg fetched now 100 c = handleGoLive pg c"
proof -
  have "handleSeek pg fetched now pct c = handleGoLive pg c"
    using assms by (rule handleSeek_live_branch)
  moreover have "handleSeek pg fetched now 99 c = handleGoLive pg c"
    by (rule handleSeek_live_branch) simp
  moreover have "handleSeek pg fetched now 100 c = handleGoLive pg c"
    by (rule handleSeek_live_branch) simp
  ultimately show ?thesis
    by (simp add: handleGoLive_fields)
qed

theorem handleSeek_goes_live_witness:
  "getElapsedTime 4600000 exController = 3600 \<and>
   handleSeek exPage None 4600000 99 exController = handleGoLive exPage exController \<and>
   handleSeek exPage None 4600000 100 exController = handleGoLive exPage exController \<and>
   handleSeek exPage None 4600000 (999 / 10) exController = handleGoLive exPage exController \<and>
   embedLog (handleSeek exPage None 4600000 (999 / 10) exController) = [] \<and>
   liveButtonClicks (handleGoLive exPage exController) = 1"
proof -
  have e: "getElapsedTime 4600000 exController = 3600"
    by code_simp
  have l: "embedLog exController = []"
    by code_simp
  have k: "liveButtonClicks (handleGoLive exPage exController) = 1"
    by code_simp
  have near: "(98::real) \<le> 999 / 10 \<or>
      getElapsedTime 4600000 exController - getElapsedTime 4600000 exController * (999 / 10) / 100 < 5"
    by (simp add: e)
  note live = handleSeek_goes_live [OF near, of exPage None]
  have a: "handleSeek exPage None 4600000 99 exController = handleGoLive exPage exController"
    using live by (simp only:)
  have b: "handleSeek exPage None 4600000 100 exController = handleGoLive exPage exController"
    using live by (simp only:)
  have c: "handleSeek exPage None 4600000 (999 / 10) exController =
      handleGoLive exPage exController"
    using live by (simp only:)
  have d: "embedLog (handleSeek exPage None 4600000 (999 / 10) exController) = []"
    by (rule trans [OF live [THEN conjunct2, THEN conjunct2, THEN conjunct1] l])
  show ?thesis
    by (intro conjI e a b c d k)
qed


section \<open>No recording\<close>

text \<open>
  C8.  An out-of-buffer seek made while no recording id is known, and whose one further
  lookup yields none (no channel to ask for, or an answer without an id), shows the
  notice that the recording is unavailable and changes nothing else: the controller is
  the one before the seek with that notice added.
\<close>

theorem handleSeek_vod_unavailable:
  assumes "pct < 98"
    and "5 \<le> getElapsedTime now c - getElapsedTime now c * pct / 100"
    and "bi_duration (getBufferInfo c) < getElapsedTime now c - getElapsedTime now c * pct / 100"
    and "\<not> truthyStr (currentVodId c)"
    and "\<not> truthyStr (currentChannel c) \<or> \<not> truthyStr fetched"
  shows "handleSeek pg fetched now pct c =
           c\<lparr>notifications := notifications c @ [VodUnavailable]\<rparr> \<and>
         isWatchingVod (handleSeek pg fetched now pct c) = isWatchingVod c \<and>
         vodPlayer (handleSeek pg fetched now pct c) = vodPlayer c \<and>
         vodOverlay (handleSeek pg fetched now pct c) = vodOverlay c \<and>
         embedLog (handleSeek pg fetched now pct c) = embedLog c \<and>
         playerElement (handleSeek pg fetched now pct c) = playerElement c"
proof -
  have "handleSeek pg fetched now pct c =
        switchToVod pg fetched (getElapsedTime now c * pct / 100) c"
    using assms(1-3) by (rule handleSeek_vod_branch)
  also have "\<dots> = showNotification VodUnavailable c"
    using assms(4,5) by (rule switchToVod_unavailable)
  finally have "handleSeek pg fetched now pct c =
      c\<lparr>notifications := notifications c @ [VodUnavailable]\<rparr>"
    by (simp add: showNotification_def)
  then show ?thesis by simp
qed

theorem handleSeek_vod_unavailable_witness:
  "\<not> isWatchingVod exControllerNoVod \<and>
   handleSeek exPage None 4600000 50 exControllerNoVod =
     exControllerNoVod\<lparr>notifications := [VodUnavailable]\<rparr> \<and>
   \<not> isWatchingVod (handleSeek exPage None 4600000 50 exControllerNoVod) \<and>
   vodPlayer (handleSeek exPage None 4600000 50 exControllerNoVod) = None \<and>
   vodOverlay (handleSeek exPage None 4600000 50 exControllerNoVod) = None"
proof -
  have e: "getElapsedTime 4600000 exControllerNoVod = 3600"
    by code_simp
  have b: "bi_duration (getBufferInfo exControllerNoVod) = 80"
    by code_simp
  have v: "\<not> truthyStr (currentVodId exControllerNoVod)"
    by code_simp
  have f: "\<not> truthyStr (currentChannel exControllerNoVod) \<or> \<not> truthyStr None"
    by (simp add: truthyStr_def)
  have s: "\<not> isWatchingVod exControllerNoVod" "vodPlayer exControllerNoVod = None"
    "vodOverlay exControllerNoVod = None" "notifications exControllerNoVod = []"
    by code_simp+
  have "handleSeek exPage None 4600000 50 exControllerNoVod =
           exControllerNoVod\<lparr>notifications := notifications exControllerNoVod @ [VodUnavailable]\<rparr> \<and>
         isWatchingVod (handleSeek exPage None 4600000 50 exControllerNoVod) =
           isWatchingVod exControllerNoVod \<and>
         vodPlayer (handleSeek exPage None 4600000 50 exControllerNoVod) =
           vodPlayer exControllerNoVod \<and>
         vodOverlay (handleSeek exPage None 4600000 50 exControllerNoVod) =
           vodOverlay exControllerNoVod \<and>
         embedLog (handleSeek exPage None 4600000 50 exControllerNoVod) =
           embedLog exControllerNoVod \<and>
         playerElement (handleSeek exPage None 4600000 50 exControllerNoVod) =
           playerElement exControllerNoVod"
  proof (rule handleSeek_vod_unavailable [OF _ _ _ v f])
    show "(50::real) < 98" by simp
    show "5 \<le> getElapsedTime 4600000 exControllerNoVod -
        getElapsedTime 4600000 exControllerNoVod * 50 / 100"
      by (simp add: e)
    show "bi_duration (getBufferInfo exControllerNoVod) <
        getElapsedTime 4600000 exControllerNoVod -
        getElapsedTime 4600000 exControllerNoVod * 50 / 100"
      by (simp add: e b)
  qed
  then show ?thesis
    using s by simp
qed


section \<open>Reusing the secondary player\<close>

lemma initVodEmbed_reuse:
  "vodPlayer c = Some h \<Longrightarrow> lastVodId c = Some v \<Longrightarrow>
   initVodEmbed pg v s c = seekVodPlayer pg h s c"
  by (simp add: initVodEmbed_def)

lemma initVodEmbed_create:
  assumes "embedApiLoaded pg" and "\<not> embedThrows pg" and "vodOverlay c \<noteq> None"
    and "vodPlayer c = None \<or> lastVodId c \<noteq> Some v"
  shows "vodPlayer (initVodEmbed pg v s c) = Some (nextHandle c)"
    and "lastVodId (initVodEmbed pg v s c) = Some v"
    and "embedLog (initVodEmbed pg v s c) =
           embedLog c @ [NewEmbed (nextHandle c) v (formatVodTimestamp s)]"
    and "vodOverlay (initVodEmbed pg v s c) \<noteq> None"
    and "currentVodId (initVodEmbed pg v s c) = currentVodId c"
proof -
  have none: "(if lastVodId c = Some v then vodPlayer c else None) = None"
    using assms(4) by auto
  obtain ov where ov: "vodOverlay c = Some ov"
    using assms(3) by auto
  have eq: "initVodEmbed pg v s c =
      (setEmbed (EmbedPlayer (nextHandle c)) ((setEmbed NoEmbed c)\<lparr>lastVodId := Some v\<rparr>))
        \<lparr> vodPlayer := Some (nextHandle c), nextHandle := nextHandle c + 1,
          embedLog := embedLog c @ [NewEmbed (nextHandle c) v (formatVodTimestamp s)] \<rparr>"
    using assms(1,2) by (simp add: initVodEmbed_def none Let_def setEmbed_def ov)
  show "vodPlayer (initVodEmbed pg v s c) = Some (nextHandle c)"
    and "lastVodId (initVodEmbed pg v s c) = Some v"
    and "embedLog (initVodEmbed pg v s c) =
           embedLog c @ [NewEmbed (nextHandle c) v (formatVodTimestamp s)]"
    and "currentVodId (initVodEmbed pg v s c) = currentVodId c"
    by (simp_all add: eq setEmbed_def)
  show "vodOverlay (initVodEmbed pg v s c) \<noteq> None"
    by (simp add: eq setEmbed_def ov)
qed

lemma showVodOverlay_fields:
  "vodPlayer (showVodOverlay c) = vodPlayer c"
  "lastVodId (showVodOverlay c) = lastVodId c"
  "embedLog (showVodOverlay c) = embedLog c"
  "currentVodId (showVodOverlay c) = currentVodId c"
  "nextHandle (showVodOverlay c) = nextHandle c"
  by (cases "vodOverlay c";
      simp add: showVodOverlay_def Let_def muteLive_def showNotification_def)+

lemma showVodOverlay_shown:
  "vodOverlay c \<noteq> None \<Longrightarrow>
   isWatchingVod (showVodOverlay c) \<and> vodOverlay (showVodOverlay c) \<noteq> None"
  by (cases "vodOverlay c")
    (simp_all add: showVodOverlay_def Let_def muteLive_def showNotification_def)

lemma seekVodPlayer_fields:
  "vodPlayer (seekVodPlayer pg h s c) = vodPlayer c"
  "vodOverlay (seekVodPlayer pg h s c) = vodOverlay c"
  "playerHasSeek pg \<Longrightarrow> \<not> seekThrows pg \<Longrightarrow>
   embedLog (seekVodPlayer pg h s c) = embedLog c @ [SeekCall h s]"
  by (simp_all add: seekVodPlayer_def)

text \<open>The first switch: no usable handle yet, the embed script loaded, a place for the overlay.\<close>

lemma switchToVod_creates:
  assumes "embedApiLoaded pg" and "\<not> embedThrows pg"
    and "hasPlayerContainer pg \<or> vodOverlay c \<noteq> None"
    and "currentVodId c = Some v" and "v \<noteq> []"
    and "vodPlayer c = None \<or> lastVodId c \<noteq> Some v"
  shows "vodPlayer (switchToVod pg fetched p c) = Some (nextHandle c)"
    and "lastVodId (switchToVod pg fetched p c) = Some v"
    and "currentVodId (switchToVod pg fetched p c) = Some v"
    and "embedLog (switchToVod pg fetched p c) =
           embedLog c @ [NewEmbed (nextHandle c) v (formatVodTimestamp (max 0 (p - 5)))]"
    and "isWatchingVod (switchToVod pg fetched p c)"
    and "vodOverlay (switchToVod pg fetched p c) \<noteq> None"
proof -
  define c2 where "c2 = (if \<not> isWatchingVod c then showNotification VodLoading c else c)"
  define c3 where "c3 = (if vodOverlay c2 = None then createVodOverlay pg c2 else c2)"
  have same2: "vodOverlay c2 = vodOverlay c" "vodPlayer c2 = vodPlayer c"
    "lastVodId c2 = lastVodId c" "embedLog c2 = embedLog c" "nextHandle c2 = nextHandle c"
    "currentVodId c2 = currentVodId c"
    by (simp_all add: c2_def showNotification_def)
  have same3: "vodPlayer c3 = vodPlayer c" "lastVodId c3 = lastVodId c"
    "embedLog c3 = embedLog c" "nextHandle c3 = nextHandle c" "currentVodId c3 = currentVodId c"
    by (simp_all add: c3_def createVodOverlay_def same2)
  have ov: "vodOverlay c3 \<noteq> None"
    using assms(3) by (auto simp add: c3_def createVodOverlay_def same2)
  have fresh: "vodPlayer c3 = None \<or> lastVodId c3 \<noteq> Some v"
    using assms(6) by (simp add: same3)
  have eq: "switchToVod pg fetched p c = showVodOverlay (initVodEmbed pg v (max 0 (p - 5)) c3)"
    by (simp only: switchToVod_available [OF assms(4,5)] c2_def c3_def)
  note made = initVodEmbed_create [OF assms(1,2) ov fresh, of "max 0 (p - 5)"]
  show "vodPlayer (switchToVod pg fetched p c) = Some (nextHandle c)"
    by (simp add: eq showVodOverlay_fields made same3)
  show "lastVodId (switchToVod pg fetched p c) = Some v"
    by (simp add: eq showVodOverlay_fields made)
  show "currentVodId (switchToVod pg fetched p c) = Some v"
    by (simp add: eq showVodOverlay_fields made same3 assms(4))
  show "embedLog (switchToVod pg fetched p c) =
           embedLog c @ [NewEmbed (nextHandle c) v (formatVodTimestamp (max 0 (p - 5)))]"
    by (simp add: eq showVodOverlay_fields made same3)
  show "isWatchingVod (switchToVod pg fetched p c)"
    and "vodOverlay (switchToVod pg fetched p c) \<noteq> None"
    using showVodOverlay_shown [OF made(4)] by (simp_all add: eq)
qed

text \<open>A later switch to the same recording: the handle is there and is only asked to seek.\<close>

lemma switchToVod_reuses:
  assumes "playerHasSeek pg" and "\<not> seekThrows pg"
    and "currentVodId c = Some v" and "v \<noteq> []"
    and "vodPlayer c = Some h" and "lastVodId c = Some v"
  shows "vodPlayer (switchToVod pg fetched p c) = Some h"
    and "embedLog (switchToVod pg fetched p c) = embedLog c @ [SeekCall h (max 0 (p - 5))]"
proof -
  define c2 where "c2 = (if \<not> isWatchingVod c then showNotification VodLoading c else c)"
  define c3 where "c3 = (if vodOverlay c2 = None then createVodOverlay pg c2 else c2)"
  have same2: "vodPlayer c2 = vodPlayer c" "lastVodId c2 = lastVodId c" "embedLog c2 = embedLog c"
    by (simp_all add: c2_def showNotification_def)
  have same3: "vodPlayer c3 = Some h" "lastVodId c3 = Some v" "embedLog c3 = embedLog c"
    by (simp_all add: c3_def createVodOverlay_def same2 assms(5,6))
  have "switchToVod pg fetched p c = showVodOverlay (initVodEmbed pg v (max 0 (p - 5)) c3)"
    by (simp only: switchToVod_available [OF assms(3,4)] c2_def c3_def)
  then have eq: "switchToVod pg fetched p c =
      showVodOverlay (seekVodPlayer pg h (max 0 (p - 5)) c3)"
    by (simp only: initVodEmbed_reuse [OF same3(1,2)])
  show "vodPlayer (switchToVod pg fetched p c) = Some h"
    by (simp add: eq showVodOverlay_fields seekVodPlayer_fields same3)
  show "embedLog (switchToVod pg fetched p c) = embedLog c @ [SeekCall h (max 0 (p - 5))]"
    by (simp add: eq showVodOverlay_fields seekVodPlayer_fields assms(1,2) same3)
qed

text \<open>Returning to live keeps the handle and the recording it belongs to.\<close>

lemma switchToLive_keeps_handle:
  "vodPlayer (switchToLive c) = vodPlayer c"
  "lastVodId (switchToLive c) = lastVodId c"
  "currentVodId (switchToLive c) = currentVodId c"
  by (simp_all add: switchToLive_def Let_def showNotification_def)

lemma handleGoLive_keeps_handle:
  "vodPlayer (handleGoLive pg c) = vodPlayer c"
  "lastVodId (handleGoLive pg c) = lastVodId c"
  "currentVodId (handleGoLive pg c) = currentVodId c"
  by (simp_all add: handleGoLive_def Let_def switchToLive_keeps_handle)

text \<open>
  C4 as stated fails.  On the example controller, which holds no handle, with the embed
  script not loaded, the first out-of-buffer seek builds the fallback iframe and sets no
  handle; the second out-of-buffer seek, to the same recording, builds the iframe anew and
  calls no seek.
\<close>

theorem handleSeek_iframe_rebuilt_example:
  "embedLog (handleSeek exPageNoEmbedApi None 4600000 25
               (handleSeek exPageNoEmbedApi None 4600000 50 exController)) =
     [NewIframe ''v1'' ''29m55s'', NewIframe ''v1'' ''14m55s''] \<and>
   vodPlayer (handleSeek exPageNoEmbedApi None 4600000 50 exController) = None \<and>
   currentVodId (handleSeek exPageNoEmbedApi None 4600000 50 exController) = Some ''v1'' \<and>
   currentVodId (handleSeek exPageNoEmbedApi None 4600000 25
                   (handleSeek exPageNoEmbedApi None 4600000 50 exController)) = Some ''v1''"
  by code_simp

text \<open>
  C4, amended.  Take an out-of-buffer seek made with the embed script loaded, its
  constructor succeeding, a place for the overlay, a known recording id and no handle for
  that recording yet: it creates the embed player and keeps its handle.  Take then the
  next out-of-buffer seek, made in any state that still has that handle and that
  recording id (the state the first seek left, or that state after a return to live,
  which keeps both), with a handle whose \<open>seek\<close> works: it leaves the handle in place,
  creates no embed and no iframe, and calls \<open>seek\<close> on the handle with the adjusted target.
\<close>

theorem handleSeek_reuses_embed:
  assumes "embedApiLoaded pg" and "\<not> embedThrows pg"
    and "hasPlayerContainer pg \<or> vodOverlay c \<noteq> None"
    and "currentVodId c = Some v" and "v \<noteq> []"
    and "vodPlayer c = None \<or> lastVodId c \<noteq> Some v"
    and "pct1 < 98"
    and "5 \<le> getElapsedTime now1 c - getElapsedTime now1 c * pct1 / 100"
    and "bi_duration (getBufferInfo c) <
           getElapsedTime now1 c - getElapsedTime now1 c * pct1 / 100"
    and "c1 = handleSeek pg fetched1 now1 pct1 c"
    and "vodPlayer c2 = vodPlayer c1" and "lastVodId c2 = lastVodId c1"
    and "currentVodId c2 = currentVodId c1"
    and "playerHasSeek pg2" and "\<not> seekThrows pg2"
    and "pct2 < 98"
    and "5 \<le> getElapsedTime now2 c2 - getElapsedTime now2 c2 * pct2 / 100"
    and "bi_duration (getBufferInfo c2) <
           getElapsedTime now2 c2 - getElapsedTime now2 c2 * pct2 / 100"
  shows "vodPlayer c1 = Some (nextHandle c) \<and>
         embedLog c1 =
           embedLog c @
           [NewEmbed (nextHandle c) v
              (formatVodTimestamp (max 0 (getElapsedTime now1 c * pct1 / 100 - 5)))] \<and>
         currentVodId c1 = Some v \<and>
         lastVodId c1 = Some v \<and>
         vodPlayer (handleSeek pg2 fetched2 now2 pct2 c2) = Some (nextHandle c) \<and>
         embedLog (handleSeek pg2 fetched2 now2 pct2 c2) =
           embedLog c2 @
           [SeekCall (nextHandle c) (max 0 (getElapsedTime now2 c2 * pct2 / 100 - 5))] \<and>
         vodPlayer (switchToLive c1) = vodPlayer c1 \<and>
         lastVodId (switchToLive c1) = lastVodId c1 \<and>
         currentVodId (switchToLive c1) = currentVodId c1 \<and>
         vodPlayer (handleGoLive pg3 c1) = vodPlayer c1 \<and>
         lastVodId (handleGoLive pg3 c1) = lastVodId c1 \<and>
         currentVodId (handleGoLive pg3 c1) = currentVodId c1"
proof -
  have first: "c1 = switchToVod pg fetched1 (getElapsedTime now1 c * pct1 / 100) c"
    using assms(10) handleSeek_vod_branch [OF assms(7-9)] by simp
  note made = switchToVod_creates [OF assms(1-6), of fetched1 "getElapsedTime now1 c * pct1 / 100",
      folded first]
  have held: "currentVodId c2 = Some v" "vodPlayer c2 = Some (nextHandle c)"
    "lastVodId c2 = Some v"
    by (simp_all add: assms(11-13) made)
  have second: "handleSeek pg2 fetched2 now2 pct2 c2 =
      switchToVod pg2 fetched2 (getElapsedTime now2 c2 * pct2 / 100) c2"
    by (rule handleSeek_vod_branch [OF assms(16-18)])
  note again = switchToVod_reuses [OF assms(14,15) held(1) assms(5) held(2,3),
      of fetched2 "getElapsedTime now2 c2 * pct2 / 100", folded second]
  show ?thesis
    by (intro conjI made(1) made(4) made(3) made(2) again switchToLive_keeps_handle
        handleGoLive_keeps_handle)
qed

theorem handleSeek_reuses_embed_witness:
  "vodPlayer (handleSeek exPage None 4600000 50 exController) = Some 0 \<and>
   embedLog (handleSeek exPage None 4600000 50 exController) = [NewEmbed 0 ''v1'' ''29m55s''] \<and>
   vodPlayer (handleSeek exPage None 4600000 25
                (handleSeek exPage None 4600000 50 exController)) = Some 0 \<and>
   embedLog (handleSeek exPage None 4600000 25
                (handleSeek exPage None 4600000 50 exController)) =
     [NewEmbed 0 ''v1'' ''29m55s'', SeekCall 0 895] \<and>
   vodPlayer (handleSeek exPage None 4600000 25
                (switchToLive (handleSeek exPage None 4600000 50 exController))) = Some 0 \<and>
   embedLog (handleSeek exPage None 4600000 25
                (switchToLive (handleSeek exPage None 4600000 50 exController))) =
     [NewEmbed 0 ''v1'' ''29m55s'', SeekCall 0 895]"
proof -
  define c1 where "c1 = handleSeek exPage None 4600000 50 exController"
  define c2 where "c2 = switchToLive c1"
  have pg: "embedApiLoaded exPage" "\<not> embedThrows exPage"
    "hasPlayerContainer exPage \<or> vodOverlay exController \<noteq> None"
    "playerHasSeek exPage" "\<not> seekThrows exPage"
    by (simp_all add: exPage_def)
  have c: "currentVodId exController = Some ''v1''" "''v1'' \<noteq> []"
    "vodPlayer exController = None \<or> lastVodId exController \<noteq> Some ''v1''"
    "nextHandle exController = 0" "embedLog exController = []"
    by (simp_all add: exController_def DVRController_def)
  have e: "getElapsedTime 4600000 exController = 3600"
    by code_simp
  have b: "bi_duration (getBufferInfo exController) = 80"
    by code_simp
  have e1: "getElapsedTime 4600000 c1 = 3600"
    unfolding c1_def by code_simp
  have b1: "bi_duration (getBufferInfo c1) = 80"
    unfolding c1_def by code_simp
  have e2: "getElapsedTime 4600000 c2 = 3600"
    unfolding c2_def c1_def by code_simp
  have b2: "bi_duration (getBufferInfo c2) = 80"
    unfolding c2_def c1_def by code_simp
  have f: "formatVodTimestamp 1795 = ''29m55s''"
    by code_simp
  have o1: "(50::real) < 98"
    "5 \<le> getElapsedTime 4600000 exController - getElapsedTime 4600000 exController * 50 / 100"
    "bi_duration (getBufferInfo exController) <
        getElapsedTime 4600000 exController - getElapsedTime 4600000 exController * 50 / 100"
    by (simp_all add: e b)
  have o2: "(25::real) < 98"
    "5 \<le> getElapsedTime 4600000 c1 - getElapsedTime 4600000 c1 * 25 / 100"
    "bi_duration (getBufferInfo c1) <
        getElapsedTime 4600000 c1 - getElapsedTime 4600000 c1 * 25 / 100"
    by (simp_all add: e1 b1)
  have o3: "(25::real) < 98"
    "5 \<le> getElapsedTime 4600000 c2 - getElapsedTime 4600000 c2 * 25 / 100"
    "bi_duration (getBufferInfo c2) <
        getElapsedTime 4600000 c2 - getElapsedTime 4600000 c2 * 25 / 100"
    by (simp_all add: e2 b2)
  note direct = handleSeek_reuses_embed [OF pg(1-3) c(1-3) o1 c1_def refl refl refl pg(4,5) o2,
      of None exPage]
  have keep: "vodPlayer c2 = vodPlayer c1" "lastVodId c2 = lastVodId c1"
    "currentVodId c2 = currentVodId c1"
    using direct by (simp_all only: c2_def)
  note later = handleSeek_reuses_embed [OF pg(1-3) c(1-3) o1 c1_def keep pg(4,5) o3,
      of None exPage]
  have l2: "embedLog c2 = embedLog c1"
    by (simp add: c2_def switchToLive_fields)
  have a: "vodPlayer c1 = Some 0"
    using direct by (simp add: c)
  have b': "embedLog c1 = [NewEmbed 0 ''v1'' ''29m55s'']"
    using direct by (simp add: c e f)
  have c': "vodPlayer (handleSeek exPage None 4600000 25 c1) = Some 0"
    using direct by (simp add: c)
  have d': "embedLog (handleSeek exPage None 4600000 25 c1) =
      [NewEmbed 0 ''v1'' ''29m55s'', SeekCall 0 895]"
    using direct by (simp add: c e e1 f)
  have e': "vodPlayer (handleSeek exPage None 4600000 25 c2) = Some 0"
    using later by (simp add: c)
  have f': "embedLog (handleSeek exPage None 4600000 25 c2) =
      [NewEmbed 0 ''v1'' ''29m55s'', SeekCall 0 895]"
    using later by (simp add: c e e2 f l2)
  show ?thesis
    using a b' c' d' e' f' by (simp only: c1_def c2_def simp_thms)
qed

end
